theory Spec2Isabelle
  imports
    Main
    "HOL-Library.AList"
    "HOL-Library.Char_ord"
    "HOL-Library.List_Lexorder"
    "HOL-Library.Multiset"
    "HOL-Library.Sublist"
    "HOL-Library.Word"
begin

section \<open>Strings\<close>

text \<open>
  A Python \<open>str\<close> is modelled by the \<^typ>\<open>string\<close> of its UTF-8 bytes: a code point
  below 128 is one character with that code, and every byte of any other code point has a
  code of 128 or more. Comparing two such strings byte by byte orders them as Python
  orders the texts, by code point.
\<close>

definition ord :: "char \<Rightarrow> nat" where
  "ord c = of_char c"

definition is_upper :: "char \<Rightarrow> bool" where
  "is_upper c = (65 \<le> ord c \<and> ord c \<le> 90)"

definition is_lower :: "char \<Rightarrow> bool" where
  "is_lower c = (97 \<le> ord c \<and> ord c \<le> 122)"

definition is_digit :: "char \<Rightarrow> bool" where
  "is_digit c = (48 \<le> ord c \<and> ord c \<le> 57)"

text \<open>\<open>str.isspace\<close> on ASCII: tab, LF, VT, FF, CR, the separators FS, GS, RS, US, and space.\<close>

definition is_space :: "char \<Rightarrow> bool" where
  "is_space c = ((9 \<le> ord c \<and> ord c \<le> 13) \<or> (28 \<le> ord c \<and> ord c \<le> 32))"

text \<open>\<open>str.lower()\<close>, on the ASCII letters.\<close>

definition lower_char :: "char \<Rightarrow> char" where
  "lower_char c = (if is_upper c then char_of (ord c + 32) else c)"

definition lower :: "string \<Rightarrow> string" where
  "lower s = map lower_char s"

text \<open>\<open>s.startswith(p)\<close>.\<close>

fun startswith :: "string \<Rightarrow> string \<Rightarrow> bool" where
  "startswith s [] = True"
| "startswith [] (p # ps) = False"
| "startswith (c # cs) (p # ps) = (c = p \<and> startswith cs ps)"

text \<open>\<open>s.replace(old, new)\<close> for single characters.\<close>

definition replace_char :: "char \<Rightarrow> char \<Rightarrow> string \<Rightarrow> string" where
  "replace_char old new s = map (\<lambda>c. if c = old then new else c) s"

text \<open>\<open>s.split()\<close>: the maximal runs of non-whitespace characters.\<close>

function split_ws :: "string \<Rightarrow> string list" where
  "split_ws s =
     (case dropWhile is_space s of
        [] \<Rightarrow> []
      | c # cs \<Rightarrow> (c # takeWhile (\<lambda>x. \<not> is_space x) cs)
                   # split_ws (dropWhile (\<lambda>x. \<not> is_space x) cs))"
  by pat_completeness auto
termination
proof (relation "measure length")
  show "wf (measure length)" by simp
next
  fix s :: string and c cs
  assume "dropWhile is_space s = c # cs"
  then have "Suc (length cs) \<le> length s"
    by (metis length_Cons length_dropWhile_le)
  moreover have "length (dropWhile (\<lambda>x. \<not> is_space x) cs) \<le> length cs"
    by (rule length_dropWhile_le)
  ultimately show "(dropWhile (\<lambda>x. \<not> is_space x) cs, s) \<in> measure length"
    by simp
qed

declare split_ws.simps [simp del]

text \<open>\<open>sep.join(parts)\<close>.\<close>

fun join :: "string \<Rightarrow> string list \<Rightarrow> string" where
  "join sep [] = []"
| "join sep [w] = w"
| "join sep (w # v # ws) = w @ sep @ join sep (v # ws)"

text \<open>\<open>s.strip(chars)\<close>: drop the characters of \<open>chars\<close> from both ends.\<close>

definition strip :: "string \<Rightarrow> string \<Rightarrow> string" where
  "strip chars s =
     rev (dropWhile (\<lambda>c. c \<in> set chars) (rev (dropWhile (\<lambda>c. c \<in> set chars) s)))"

section \<open>werkzeug.utils.secure\_filename\<close>

text \<open>
  The library function that \<open>_timestamped_name\<close> calls, as werkzeug defines it on a
  POSIX host (\<open>os.sep = "/"\<close>, no \<open>os.path.altsep\<close>, \<open>os.name \<noteq> "nt"\<close>):
  \<^verbatim>\<open>
  filename = unicodedata.normalize("NFKD", filename)
  filename = filename.encode("ascii", "ignore").decode("ascii")
  for sep in os.sep, os.path.altsep:
      if sep: filename = filename.replace(sep, " ")
  filename = str(_filename_ascii_strip_re.sub("", "_".join(filename.split()))).strip("._")
  \<close>
  with \<open>_filename_ascii_strip_re = [^A-Za-z0-9_.-]\<close>.

  The decomposition tables of \<open>unicodedata\<close> are not part of the sources: the function
  \<open>normalize("NFKD", \<cdot>)\<close> is the argument \<open>nfkd\<close> of the model, and what is proved
  holds for every such function.
\<close>

text \<open>\<open>s.encode("ascii", "ignore").decode("ascii")\<close>: the code points below 128.\<close>

definition ascii_ignore :: "string \<Rightarrow> string" where
  "ascii_ignore s = filter (\<lambda>c. ord c < 128) s"

definition filename_ascii :: "char \<Rightarrow> bool" where
  "filename_ascii c =
     (is_upper c \<or> is_lower c \<or> is_digit c
      \<or> c = CHR ''_'' \<or> c = CHR ''.'' \<or> c = CHR ''-'')"

definition secure_filename :: "(string \<Rightarrow> string) \<Rightarrow> string \<Rightarrow> string" where
  "secure_filename nfkd filename =
     strip ''._''
       (filter filename_ascii
          (join ''_''
             (split_ws (replace_char CHR ''/'' CHR '' '' (ascii_ignore (nfkd filename))))))"

text \<open>
  The entries of the table that the examples need: \<open>U+00E9\<close> decomposes into \<open>e\<close> and
  the combining acute accent \<open>U+0301\<close>, the no-break space \<open>U+00A0\<close> into a space; ASCII
  text is left as it is, as by the whole table.
\<close>

fun nfkd_fragment :: "string \<Rightarrow> string" where
  "nfkd_fragment [] = []"
| "nfkd_fragment [c] = [c]"
| "nfkd_fragment (c # d # cs) =
     (if c = CHR 0xC3 \<and> d = CHR 0xA9 then CHR ''e'' # CHR 0xCC # CHR 0x81 # nfkd_fragment cs
      else if c = CHR 0xC2 \<and> d = CHR 0xA0 then CHR '' '' # nfkd_fragment cs
      else c # nfkd_fragment (d # cs))"

section \<open>datetime.strftime\<close>

text \<open>
  \<open>datetime.now(timezone.utc)\<close> reads the clock; the instant it returns is an input
  of the model.
\<close>

record datetime =
  year :: nat
  month :: nat
  day :: nat
  hour :: nat
  minute :: nat
  second :: nat
  microsecond :: nat

text \<open>The ranges of the fields of a \<open>datetime\<close>, for years of four digits.\<close>

definition datetime_ok :: "datetime \<Rightarrow> bool" where
  "datetime_ok t =
     (1000 \<le> year t \<and> year t \<le> 9999 \<and> 1 \<le> month t \<and> month t \<le> 12
      \<and> 1 \<le> day t \<and> day t \<le> 31 \<and> hour t < 24 \<and> minute t < 60 \<and> second t < 60
      \<and> microsecond t < 1000000)"

definition digit_char :: "nat \<Rightarrow> char" where
  "digit_char d = char_of (48 + d)"

text \<open>The decimal digits of a number, as \<open>str(n)\<close> writes them.\<close>

function str_nat :: "nat \<Rightarrow> string" where
  "str_nat n = (if n < 10 then [digit_char n] else str_nat (n div 10) @ [digit_char (n mod 10)])"
  by pat_completeness auto
termination
  by (relation "measure id") auto

declare str_nat.simps [simp del]

text \<open>\<open>s.zfill(w)\<close> on a string of digits: pad with zeros on the left to width \<open>w\<close>.\<close>

definition zfill :: "nat \<Rightarrow> string \<Rightarrow> string" where
  "zfill w s = replicate (w - length s) CHR ''0'' @ s"

text \<open>
  The directives the format string of the source uses: \<open>%Y\<close> is the year padded to four
  digits, \<open>%m %d %H %M %S\<close> are padded to two. Any other directive is left as it is
  written.
\<close>

definition directive :: "char \<Rightarrow> datetime \<Rightarrow> string" where
  "directive d t =
     (if d = CHR ''Y'' then zfill 4 (str_nat (year t))
      else if d = CHR ''m'' then zfill 2 (str_nat (month t))
      else if d = CHR ''d'' then zfill 2 (str_nat (day t))
      else if d = CHR ''H'' then zfill 2 (str_nat (hour t))
      else if d = CHR ''M'' then zfill 2 (str_nat (minute t))
      else if d = CHR ''S'' then zfill 2 (str_nat (second t))
      else [CHR ''%'', d])"

fun strftime :: "datetime \<Rightarrow> string \<Rightarrow> string" where
  "strftime t [] = []"
| "strftime t [c] = [c]"
| "strftime t (c # d # cs) =
     (if c = CHR ''%'' then directive d t @ strftime t cs else c # strftime t (d # cs))"

section \<open>The request and the object store\<close>

type_synonym bytes = "8 word list"

text \<open>An exception is observed through \<open>str(exc)\<close> only.\<close>

datatype exn = Exception string

fun str_exn :: "exn \<Rightarrow> string" where
  "str_exn (Exception msg) = msg"

text \<open>
  A werkzeug \<open>FileStorage\<close>: the filename and the content type the client declared
  (either may be \<open>None\<close>), and the payload.
\<close>

record file_storage =
  filename :: "string option"
  mimetype :: "string option"
  stream :: bytes

text \<open>
  A request: the length of its body, which counts the payloads of its parts; what the form
  parser of the framework raises on this body for a reason other than its length (a form
  field or a number of parts over werkzeug's limits), if anything; and the file parts of
  the multipart body, by field name, in order.
\<close>

record request =
  content_length :: nat
  parse_error :: "exn option"
  files :: "(string \<times> file_storage) list"

text \<open>\<open>app.config["MAX_CONTENT_LENGTH"] = 10 * 1024 * 1024\<close>.\<close>

definition MAX_CONTENT_LENGTH :: nat where
  "MAX_CONTENT_LENGTH = 10 * 1024 * 1024"

text \<open>The \<open>RequestEntityTooLarge\<close> of werkzeug, as \<open>str\<close> shows it.\<close>

definition request_entity_too_large :: exn where
  "request_entity_too_large =
     Exception
       ''413 Request Entity Too Large: The data value transmitted exceeds the capacity limit.''"

text \<open>
  \<open>request.files\<close>: reading it parses the body. A body longer than
  \<open>MAX_CONTENT_LENGTH\<close> raises, and so does a body the parser refuses; otherwise the
  file parts are returned.
\<close>

definition request_files :: "request \<Rightarrow> exn + (string \<times> file_storage) list" where
  "request_files req =
     (if MAX_CONTENT_LENGTH < content_length req then Inl request_entity_too_large
      else case parse_error req of
             Some exc \<Rightarrow> Inl exc
           | None \<Rightarrow> Inr (files req))"

text \<open>
  The container client is an external collaborator. Over a store state \<open>'s\<close> it offers
  \<^item> \<open>url\<close>, the base URL of the container;
  \<^item> \<open>upload_blob name data overwrite content_type\<close>, which raises or returns, and leaves
    a new store state;
  \<^item> \<open>list_blobs\<close>, a lazy listing: the blob names it yields, then possibly an exception.
\<close>

record 's container_client =
  url :: string
  upload_blob :: "string \<Rightarrow> bytes \<Rightarrow> bool \<Rightarrow> string option \<Rightarrow> 's \<Rightarrow> exn option \<times> 's"
  list_blobs :: "'s \<Rightarrow> string list \<times> exn option"

text \<open>The calls a handler makes on the container client, in order.\<close>

datatype store_call =
    Upload_blob string bytes bool "string option"
  | List_blobs

section \<open>Responses\<close>

datatype json = JBool bool | JString string | JArray "json list"

text \<open>A response is the JSON object given to \<open>jsonify\<close> and the status code.\<close>

type_synonym response = "(string \<times> json) list \<times> nat"

text \<open>What a handler returns: its response, its calls on the store, and the store after them.\<close>

type_synonym 's outcome = "response \<times> store_call list \<times> 's"

text \<open>\<open>return jsonify(...)\<close> without a status code is a 200.\<close>

definition jsonify :: "(string \<times> json) list \<Rightarrow> response" where
  "jsonify body = (body, 200)"

definition jsonify_status :: "(string \<times> json) list \<Rightarrow> nat \<Rightarrow> response" where
  "jsonify_status body status = (body, status)"

section \<open>The handlers\<close>

text \<open>
  The request, the container client and the clock are globals of the source and arguments
  of the model. The operations of a handler that may raise are the reading of
  \<open>request.files\<close> and the calls on the container client; the \<open>except Exception\<close>
  clause of the handler is the branch of the model where one did. The log lines are left
  out.
\<close>

text \<open>\<open>x or default\<close> on an optional string: \<open>None\<close> and the empty string are falsy.\<close>

definition or_else :: "string option \<Rightarrow> string \<Rightarrow> string" where
  "or_else x dflt = (case x of None \<Rightarrow> dflt | Some s \<Rightarrow> if s = [] then dflt else s)"

definition is_image_upload :: "file_storage \<Rightarrow> bool" where
  "is_image_upload file_storage =
     (let mimetype = lower (or_else (mimetype file_storage) [])
      in startswith mimetype ''image/'')"

definition timestamped_name ::
  "(string \<Rightarrow> string) \<Rightarrow> datetime \<Rightarrow> string option \<Rightarrow> string" where
  "timestamped_name nfkd now original_filename =
     (let safe = secure_filename nfkd (or_else original_filename ''upload'');
          now_utc = strftime now ''%Y%m%dT%H%M%S''
      in now_utc @ ''-'' @ safe)"

definition upload ::
  "(string \<Rightarrow> string) \<Rightarrow> 's container_client \<Rightarrow> datetime \<Rightarrow> request \<Rightarrow> 's \<Rightarrow> 's outcome"
  where
  "upload nfkd container_client now req s =
     (case request_files req of
        Inl exc \<Rightarrow>
          (jsonify_status [(''ok'', JBool False), (''error'', JString (str_exn exc))] 500, [], s)
      | Inr parts \<Rightarrow>
         (case map_of parts ''file'' of
            None \<Rightarrow>
              (jsonify_status [(''ok'', JBool False), (''error'', JString ''Missing file'')] 400,
               [], s)
          | Some f \<Rightarrow>
              if filename f = Some [] then
                (jsonify_status [(''ok'', JBool False), (''error'', JString ''Empty filename'')]
                   400,
                 [], s)
              else if \<not> is_image_upload f then
                (jsonify_status
                   [(''ok'', JBool False),
                    (''error'', JString ''Only image/* content types are allowed'')] 400,
                 [], s)
              else
                let blob_name = timestamped_name nfkd now (filename f) in
                (case upload_blob container_client blob_name (stream f) True (mimetype f) s of
                   (Some exc, s') \<Rightarrow>
                     (jsonify_status
                        [(''ok'', JBool False), (''error'', JString (str_exn exc))] 500,
                      [Upload_blob blob_name (stream f) True (mimetype f)], s')
                 | (None, s') \<Rightarrow>
                     let blob_url = url container_client @ ''/'' @ blob_name in
                     (jsonify [(''ok'', JBool True), (''url'', JString blob_url)],
                      [Upload_blob blob_name (stream f) True (mimetype f)], s'))))"

text \<open>
  \<open>urls.sort(reverse=True)\<close>: strings compare by code point, a proper prefix before its
  extensions; equal strings are identical, so the descending order is the reverse of the
  ascending one.
\<close>

definition sort_reverse :: "string list \<Rightarrow> string list" where
  "sort_reverse urls = rev (sort urls)"

definition gallery :: "'s container_client \<Rightarrow> 's \<Rightarrow> 's outcome" where
  "gallery container_client s =
     (case list_blobs container_client s of
        (blobs, Some exc) \<Rightarrow>
          (jsonify_status [(''ok'', JBool False), (''error'', JString (str_exn exc))] 500,
           [List_blobs], s)
      | (blobs, None) \<Rightarrow>
          let urls = map (\<lambda>name. url container_client @ ''/'' @ name) blobs;
              urls = sort_reverse urls
          in (jsonify [(''ok'', JBool True), (''gallery'', JArray (map JString urls))],
              [List_blobs], s))"

text \<open>The health handler reads neither the request nor the store.\<close>

definition health :: "'s container_client \<Rightarrow> request \<Rightarrow> 's \<Rightarrow> 's outcome" where
  "health container_client req s = (jsonify [(''ok'', JBool True)], [], s)"

section \<open>An in-memory container\<close>

text \<open>
  A container that never fails: the blobs by name, an upload with \<open>overwrite\<close> replacing
  the blob of that name. It serves as the concrete store of the examples.
\<close>

type_synonym mem_store = "(string \<times> bytes \<times> string option) list"

definition mem_upload_blob ::
  "string \<Rightarrow> bytes \<Rightarrow> bool \<Rightarrow> string option \<Rightarrow> mem_store \<Rightarrow> exn option \<times> mem_store" where
  "mem_upload_blob name data overwrite ct s =
     (if map_of s name \<noteq> None \<and> \<not> overwrite
      then (Some (Exception ''The specified blob already exists.''), s)
      else (None, AList.update name (data, ct) s))"

definition mem_client :: "string \<Rightarrow> mem_store container_client" where
  "mem_client base =
     \<lparr>url = base, upload_blob = mem_upload_blob, list_blobs = (\<lambda>s. (map fst s, None))\<rparr>"

text \<open>A container whose every call raises the given exception.\<close>

definition failing_client :: "string \<Rightarrow> exn \<Rightarrow> mem_store container_client" where
  "failing_client base exc =
     \<lparr>url = base,
      upload_blob = (\<lambda>name data overwrite ct s. (Some exc, s)),
      list_blobs = (\<lambda>s. (map fst s, Some exc))\<rparr>"

section \<open>The specification's notions\<close>


text \<open>
  Following the specification: the timestamp \<open>YYYYMMDDTHHMMSS\<close>, every field in decimal
  at a fixed width, the year on four digits and the others on two.
\<close>

definition fixed2 :: "nat \<Rightarrow> string" where
  "fixed2 n = [digit_char (n div 10 mod 10), digit_char (n mod 10)]"

definition fixed4 :: "nat \<Rightarrow> string" where
  "fixed4 n =
     [digit_char (n div 1000 mod 10), digit_char (n div 100 mod 10),
      digit_char (n div 10 mod 10), digit_char (n mod 10)]"

definition utc_timestamp_spec :: "datetime \<Rightarrow> string" where
  "utc_timestamp_spec t =
     fixed4 (year t) @ fixed2 (month t) @ fixed2 (day t) @ ''T''
       @ fixed2 (hour t) @ fixed2 (minute t) @ fixed2 (second t)"

text \<open>Two instants within the same UTC second.\<close>

definition same_second :: "datetime \<Rightarrow> datetime \<Rightarrow> bool" where
  "same_second a b =
     (year a = year b \<and> month a = month b \<and> day a = day b
      \<and> hour a = hour b \<and> minute a = minute b \<and> second a = second b)"

text \<open>The instants, file parts and requests of the examples.\<close>

definition t_example :: datetime where
  "t_example =
     \<lparr>year = 2024, month = 6, day = 1, hour = 12, minute = 0, second = 5, microsecond = 17\<rparr>"

definition t_later :: datetime where
  "t_later =
     \<lparr>year = 2024, month = 6, day = 1, hour = 12, minute = 0, second = 5, microsecond = 900000\<rparr>"

definition png_part :: file_storage where
  "png_part = \<lparr>filename = Some ''../my cat.PNG'', mimetype = Some ''Image/PNG'', stream = [137, 80]\<rparr>"

definition png_part2 :: file_storage where
  "png_part2 = \<lparr>filename = Some ''../my cat.PNG'', mimetype = Some ''image/png'', stream = [71]\<rparr>"

definition text_part :: file_storage where
  "text_part = \<lparr>filename = Some ''notes.txt'', mimetype = Some ''text/plain'', stream = [104, 105]\<rparr>"

definition unnamed_text_part :: file_storage where
  "unnamed_text_part = \<lparr>filename = Some [], mimetype = Some ''text/plain'', stream = []\<rparr>"

definition untyped_part :: file_storage where
  "untyped_part = \<lparr>filename = Some ''cat.png'', mimetype = None, stream = [137, 80]\<rparr>"

definition unnamed_untyped_part :: file_storage where
  "unnamed_untyped_part = \<lparr>filename = Some [], mimetype = None, stream = []\<rparr>"


text \<open>A request within every limit, and one whose body is one byte over the cap.\<close>

definition small_request :: "(string \<times> file_storage) list \<Rightarrow> request" where
  "small_request parts = \<lparr>content_length = 4096, parse_error = None, files = parts\<rparr>"

definition oversized_request :: "(string \<times> file_storage) list \<Rightarrow> request" where
  "oversized_request parts =
     \<lparr>content_length = 10485761, parse_error = None, files = parts\<rparr>"

text \<open>A request of a small body that holds a form field over werkzeug's limit.\<close>

definition overfull_form_request :: "(string \<times> file_storage) list \<Rightarrow> request" where
  "overfull_form_request parts =
     \<lparr>content_length = 600000, parse_error = Some request_entity_too_large, files = parts\<rparr>"

section \<open>Strings: lemmas\<close>

lemma startswith_prefix: "startswith s p = prefix p s"
  by (induction s p rule: startswith.induct) auto








section \<open>Sorting and timestamps: lemmas\<close>

lemma mset_sort_reverse: "mset (sort_reverse xs) = mset xs"
  by (simp add: sort_reverse_def)

lemma sorted_sort_reverse: "sorted_wrt (\<lambda>x y. y \<le> x) (sort_reverse xs)"
  by (simp add: sort_reverse_def sorted_wrt_rev)

lemma append_less_append: "(u @ x < u @ (y :: string)) \<longleftrightarrow> x < y"
  by (induction u) simp_all

lemma sort_reverse_pair: "x < y \<Longrightarrow> sort_reverse [u @ x, u @ y] = [u @ y, u @ (x::string)]"
  by (simp add: sort_reverse_def append_less_append less_imp_le)

lemma example_order: "''/20240101T000000-a.png'' < ''/20240601T000000-b.png''"
  by simp

lemma str_nat_1: "n < 10 \<Longrightarrow> str_nat n = [digit_char n]"
  by (subst str_nat.simps) simp

lemma str_nat_2: "10 \<le> n \<Longrightarrow> n < 100 \<Longrightarrow> str_nat n = [digit_char (n div 10), digit_char (n mod 10)]"
  by (subst str_nat.simps) (simp add: str_nat_1)

lemma str_nat_3: "100 \<le> n \<Longrightarrow> n < 1000 \<Longrightarrow>
  str_nat n = [digit_char (n div 100), digit_char (n div 10 mod 10), digit_char (n mod 10)]"
  by (subst str_nat.simps) (simp add: str_nat_2 div_mult2_eq[symmetric])

lemma str_nat_4: "1000 \<le> n \<Longrightarrow> n < 10000 \<Longrightarrow>
  str_nat n = [digit_char (n div 1000), digit_char (n div 100 mod 10), digit_char (n div 10 mod 10), digit_char (n mod 10)]"
  by (subst str_nat.simps) (simp add: str_nat_3 div_mult2_eq[symmetric])

lemma digit_char_0: "digit_char 0 = CHR ''0''"
  by (simp add: digit_char_def char_of_eq_iff)

lemma zfill2: "n < 100 \<Longrightarrow> zfill 2 (str_nat n) = fixed2 n"
  by (cases "n < 10") (simp_all add: zfill_def str_nat_1 str_nat_2 fixed2_def digit_char_0)

lemma zfill4: "1000 \<le> n \<Longrightarrow> n < 10000 \<Longrightarrow> zfill 4 (str_nat n) = fixed4 n"
  by (simp add: zfill_def str_nat_4 fixed4_def)


lemma strftime_fixed:
  assumes "datetime_ok t"
  shows "strftime t ''%Y%m%dT%H%M%S'' = utc_timestamp_spec t"
  using assms by (simp add: datetime_ok_def directive_def zfill2 zfill4 utc_timestamp_spec_def)

section \<open>The examples: lemmas\<close>

lemma request_files_small: "request_files (small_request parts) = Inr parts"
  by (simp add: request_files_def small_request_def MAX_CONTENT_LENGTH_def)

lemma request_files_oversized:
  "request_files (oversized_request parts) = Inl request_entity_too_large"
  by (simp add: request_files_def oversized_request_def MAX_CONTENT_LENGTH_def)

lemma request_files_overfull_form:
  "request_files (overfull_form_request parts) = Inl request_entity_too_large"
  by (simp add: request_files_def overfull_form_request_def MAX_CONTENT_LENGTH_def)

lemma secure_filename_examples:
  "secure_filename nfkd_fragment ''../../etc/passwd'' = ''etc_passwd''"
  "secure_filename nfkd_fragment ''My cool movie.mov'' = ''My_cool_movie.mov''"
  "secure_filename nfkd_fragment (''caf'' @ [CHR 0xC3, CHR 0xA9] @ ''.png'') = ''cafe.png''"
  "secure_filename nfkd_fragment (''a'' @ [CHR 0xC2, CHR 0xA0] @ ''b'') = ''a_b''"
  by code_simp+

lemma png_part_valid:
  "map_of [(''file'', png_part)] ''file'' = Some png_part"
  "filename png_part \<noteq> Some []"
  "prefix ''image/'' (lower (or_else (mimetype png_part) []))"
  by code_simp+

lemma png_part_key:
  "timestamped_name nfkd_fragment t_example (filename png_part) = ''20240601T120005-my_cat.PNG''"
  by (simp add: png_part_def t_example_def) code_simp

lemma png_part2_valid:
  "map_of [(''file'', png_part2)] ''file'' = Some png_part2"
  "prefix ''image/'' (lower (or_else (mimetype png_part2) []))"
  by code_simp+

lemma png_part2_key:
  "timestamped_name nfkd_fragment t_later (filename png_part2) = ''20240601T120005-my_cat.PNG''"
proof -
  have "timestamped_name nfkd_fragment t_later (filename png_part2)
          = timestamped_name nfkd_fragment t_example (filename png_part)"
    by (simp add: timestamped_name_def t_later_def t_example_def directive_def png_part_def
        png_part2_def)
  then show ?thesis by (simp only: png_part_key)
qed



lemma text_part_invalid:
  "map_of [(''file'', text_part)] ''file'' = Some text_part"
  "filename text_part \<noteq> Some []"
  "\<not> prefix ''image/'' (lower (or_else (mimetype text_part) []))"
  by code_simp+

lemma mem_upload_blob_overwrite:
  "mem_upload_blob name data True ct s = (None, s') \<Longrightarrow> map_of s' name = Some (data, ct)"
  by (auto simp: mem_upload_blob_def update_conv')

lemma length_utc_timestamp_spec: "length (utc_timestamp_spec t) = 15"
  by (simp add: utc_timestamp_spec_def fixed2_def fixed4_def)

section \<open>The handlers: claims\<close>

text \<open>
  C9: the health handler returns \<open>{ok: true}\<close> with status 200 for every invocation,
  whatever the container client, the request and the state of the store; it makes no call
  on the store and leaves it as it is.
\<close>

theorem health_always_ok:
  "health cc req s = (([(''ok'', JBool True)], 200), [], s)"
  by (simp add: health_def jsonify_def)

text \<open>
  C4, as stated, fails for a request whose body is not parsed: with no part named
  \<open>file\<close> and a body over the cap, or with a part of type \<open>text/plain\<close> next to a form
  field over the limit, reading \<open>request.files\<close> raises and the answer is a 500.
\<close>

theorem upload_validation_failure_counterexample:
  "upload nfkd_fragment (mem_client ''https://acct/c'') t_example (oversized_request []) [] =
     (([(''ok'', JBool False),
        (''error'', JString
           ''413 Request Entity Too Large: The data value transmitted exceeds the capacity limit.'')],
       500), [], [])
   \<and> upload nfkd_fragment (mem_client ''https://acct/c'') t_example
        (overfull_form_request [(''file'', text_part)]) [] =
     (([(''ok'', JBool False),
        (''error'', JString
           ''413 Request Entity Too Large: The data value transmitted exceeds the capacity limit.'')],
       500), [], [])"
  by (simp add: upload_def request_files_oversized request_files_overfull_form
      jsonify_status_def request_entity_too_large_def)

text \<open>
  C4, amended: an upload whose body is parsed and that fails validation is answered with
  \<open>ok: false\<close>, status 400 and the message of the check that failed (no part named
  \<open>file\<close>; an empty filename; a content type that is not \<open>image/*\<close>); an upload whose
  body is not parsed is answered with status 500 and the string of the exception. Neither
  makes a call on the store, which stays as it is.
\<close>

theorem upload_validation_failure:
  "(request_files req = Inr parts \<and> map_of parts ''file'' = None \<longrightarrow>
      upload nfkd cc now req s =
        (([(''ok'', JBool False), (''error'', JString ''Missing file'')], 400), [], s))
   \<and> (request_files req = Inr parts \<and> map_of parts ''file'' = Some f
        \<and> filename f = Some [] \<longrightarrow>
      upload nfkd cc now req s =
        (([(''ok'', JBool False), (''error'', JString ''Empty filename'')], 400), [], s))
   \<and> (request_files req = Inr parts \<and> map_of parts ''file'' = Some f
        \<and> filename f \<noteq> Some []
        \<and> \<not> prefix ''image/'' (lower (or_else (mimetype f) [])) \<longrightarrow>
      upload nfkd cc now req s =
        (([(''ok'', JBool False),
           (''error'', JString ''Only image/* content types are allowed'')], 400), [], s))
   \<and> (request_files req = Inl exc \<longrightarrow>
      upload nfkd cc now req s =
        (([(''ok'', JBool False), (''error'', JString (str_exn exc))], 500), [], s))"
  by (simp add: upload_def jsonify_status_def is_image_upload_def startswith_prefix)

theorem upload_validation_failure_witness:
  "upload nfkd_fragment (mem_client ''https://acct/c'') t_example (small_request []) [] =
     (([(''ok'', JBool False), (''error'', JString ''Missing file'')], 400), [], [])
   \<and> upload nfkd_fragment (mem_client ''https://acct/c'') t_example
        (small_request [(''file'', unnamed_text_part)]) [] =
     (([(''ok'', JBool False), (''error'', JString ''Empty filename'')], 400), [], [])
   \<and> upload nfkd_fragment (mem_client ''https://acct/c'') t_example
        (small_request [(''file'', text_part)]) [] =
     (([(''ok'', JBool False),
        (''error'', JString ''Only image/* content types are allowed'')], 400), [], [])
   \<and> upload nfkd_fragment (mem_client ''https://acct/c'') t_example
        (oversized_request [(''file'', text_part)]) [] =
     (([(''ok'', JBool False), (''error'', JString (str_exn request_entity_too_large))], 500),
      [], [])"
proof -
  let ?cc = "mem_client ''https://acct/c''"
  have a: "upload nfkd_fragment ?cc t_example (small_request []) [] =
     (([(''ok'', JBool False), (''error'', JString ''Missing file'')], 400), [], [])"
    using upload_validation_failure[where req = "small_request []" and parts = "[]"
        and nfkd = nfkd_fragment and cc = ?cc and now = t_example and s = "[]"]
      request_files_small[of "[]"]
    by simp
  have b: "upload nfkd_fragment ?cc t_example
        (small_request [(''file'', unnamed_text_part)]) [] =
     (([(''ok'', JBool False), (''error'', JString ''Empty filename'')], 400), [], [])"
    using upload_validation_failure[where req = "small_request [(''file'', unnamed_text_part)]"
        and parts = "[(''file'', unnamed_text_part)]" and f = unnamed_text_part
        and nfkd = nfkd_fragment and cc = ?cc and now = t_example and s = "[]"]
      request_files_small[of "[(''file'', unnamed_text_part)]"]
    by (simp add: unnamed_text_part_def)
  have c: "upload nfkd_fragment ?cc t_example (small_request [(''file'', text_part)]) [] =
     (([(''ok'', JBool False),
        (''error'', JString ''Only image/* content types are allowed'')], 400), [], [])"
    using upload_validation_failure[where req = "small_request [(''file'', text_part)]"
        and parts = "[(''file'', text_part)]" and f = text_part
        and nfkd = nfkd_fragment and cc = ?cc and now = t_example and s = "[]"]
      request_files_small[of "[(''file'', text_part)]"] text_part_invalid
    by simp
  have d: "upload nfkd_fragment ?cc t_example (oversized_request [(''file'', text_part)]) [] =
     (([(''ok'', JBool False), (''error'', JString (str_exn request_entity_too_large))], 500),
      [], [])"
    using upload_validation_failure[where req = "oversized_request [(''file'', text_part)]"
        and exc = request_entity_too_large
        and nfkd = nfkd_fragment and cc = ?cc and now = t_example and s = "[]"]
      request_files_oversized[of "[(''file'', text_part)]"]
    by simp
  show ?thesis by (intro conjI a b c d)
qed

text \<open>
  C5: a valid image upload whose write to the store succeeds is answered with \<open>ok: true\<close>,
  status 200 and the URL \<open><base-url>/<key>\<close>, of which the key handed to the store is
  a suffix.
\<close>

theorem upload_success:
  assumes "request_files req = Inr parts"
    and "map_of parts ''file'' = Some f"
    and "filename f \<noteq> Some []"
    and "prefix ''image/'' (lower (or_else (mimetype f) []))"
    and "upload_blob cc (timestamped_name nfkd now (filename f)) (stream f) True (mimetype f) s
           = (None, s')"
  shows "upload nfkd cc now req s =
           (([(''ok'', JBool True),
              (''url'', JString (url cc @ ''/'' @ timestamped_name nfkd now (filename f)))], 200),
            [Upload_blob (timestamped_name nfkd now (filename f)) (stream f) True (mimetype f)],
            s')
         \<and> suffix (timestamped_name nfkd now (filename f))
                  (url cc @ ''/'' @ timestamped_name nfkd now (filename f))"
  using assms
  by (simp add: upload_def jsonify_def is_image_upload_def startswith_prefix suffix_def Let_def)

theorem upload_success_witness:
  "upload nfkd_fragment (mem_client ''https://acct/c'') t_example
       (small_request [(''file'', png_part)]) [] =
     (([(''ok'', JBool True),
        (''url'', JString ''https://acct/c/20240601T120005-my_cat.PNG'')], 200),
      [Upload_blob ''20240601T120005-my_cat.PNG'' [137, 80] True (Some ''Image/PNG'')],
      [(''20240601T120005-my_cat.PNG'', [137, 80], Some ''Image/PNG'')])"
proof -
  have w: "upload_blob (mem_client ''https://acct/c'')
          (timestamped_name nfkd_fragment t_example (filename png_part)) (stream png_part) True
          (mimetype png_part) []
        = (None, [(''20240601T120005-my_cat.PNG'', [137, 80], Some ''Image/PNG'')])"
    unfolding png_part_key by (simp add: mem_client_def mem_upload_blob_def png_part_def)
  show ?thesis
    using upload_success[OF request_files_small png_part_valid w] unfolding png_part_key
    by (simp add: mem_client_def png_part_def)
qed

text \<open>
  C7: when the store raises, the upload handler and the gallery handler answer with
  \<open>ok: false\<close>, status 500 and the string of the exception as the error. The store was
  called once (no retry), and the gallery names yielded before the failure are not returned.
\<close>

theorem store_exception:
  "(request_files req = Inr parts \<and> map_of parts ''file'' = Some f
      \<and> filename f \<noteq> Some []
      \<and> prefix ''image/'' (lower (or_else (mimetype f) []))
      \<and> upload_blob cc (timestamped_name nfkd now (filename f)) (stream f) True (mimetype f) s
            = (Some exc, s') \<longrightarrow>
     upload nfkd cc now req s =
       (([(''ok'', JBool False), (''error'', JString (str_exn exc))], 500),
        [Upload_blob (timestamped_name nfkd now (filename f)) (stream f) True (mimetype f)], s'))
   \<and> (list_blobs cc s = (yielded, Some exc) \<longrightarrow>
     gallery cc s =
       (([(''ok'', JBool False), (''error'', JString (str_exn exc))], 500), [List_blobs], s))"
  by (simp add: upload_def gallery_def jsonify_status_def is_image_upload_def startswith_prefix
      Let_def)

theorem store_exception_witness:
  "upload nfkd_fragment (failing_client ''https://acct/c'' (Exception ''quota exceeded''))
       t_example (small_request [(''file'', png_part)]) [] =
     (([(''ok'', JBool False), (''error'', JString ''quota exceeded'')], 500),
      [Upload_blob ''20240601T120005-my_cat.PNG'' [137, 80] True (Some ''Image/PNG'')], [])
   \<and> gallery (failing_client ''https://acct/c'' (Exception ''quota exceeded''))
        [(''20240101T000000-a.png'', [], None)] =
     (([(''ok'', JBool False), (''error'', JString ''quota exceeded'')], 500), [List_blobs],
      [(''20240101T000000-a.png'', [], None)])"
proof -
  let ?cc = "failing_client ''https://acct/c'' (Exception ''quota exceeded'')"
  have u: "upload_blob ?cc (timestamped_name nfkd_fragment t_example (filename png_part))
             (stream png_part) True (mimetype png_part) []
           = (Some (Exception ''quota exceeded''), [])"
    by (simp add: failing_client_def)
  have l: "list_blobs ?cc [(''20240101T000000-a.png'', [], None)]
             = ([''20240101T000000-a.png''], Some (Exception ''quota exceeded''))"
    by (simp add: failing_client_def)
  show ?thesis
    using store_exception[where req = "small_request [(''file'', png_part)]"
        and parts = "[(''file'', png_part)]" and f = png_part and nfkd = nfkd_fragment
        and cc = ?cc and now = t_example and s = "[]" and s' = "[]"
        and exc = "Exception ''quota exceeded''"]
      store_exception[where cc = ?cc and s = "[(''20240101T000000-a.png'', [], None)]"
        and yielded = "[''20240101T000000-a.png'']" and exc = "Exception ''quota exceeded''"]
      png_part_valid request_files_small u l
    unfolding png_part_key by (simp add: png_part_def)
qed

text \<open>
  C10, as stated, fails in two places: when the body is over the cap, reading
  \<open>request.files\<close> raises and the answer is a 500; and when the filename is empty as
  well, the filename check answers, not the content-type check.
\<close>

theorem missing_content_type_rejected_counterexample:
  "upload nfkd_fragment (mem_client ''https://acct/c'') t_example
       (oversized_request [(''file'', untyped_part)]) [] =
     (([(''ok'', JBool False),
        (''error'', JString
           ''413 Request Entity Too Large: The data value transmitted exceeds the capacity limit.'')],
       500), [], [])
   \<and> upload nfkd_fragment (mem_client ''https://acct/c'') t_example
        (small_request [(''file'', unnamed_untyped_part)]) [] =
     (([(''ok'', JBool False), (''error'', JString ''Empty filename'')], 400), [], [])"
  by (simp add: upload_def request_files_oversized request_files_small jsonify_status_def
      request_entity_too_large_def unnamed_untyped_part_def)

text \<open>
  C10, amended: when the body of the upload is parsed, a file part whose content type is
  \<open>None\<close> or missing (the empty string) is read as the empty content type and is not an
  image upload; with a filename that is not empty the upload is rejected by the
  content-type check with \<open>ok: false\<close>, \<open>Only image/* content types are allowed\<close> and
  status 400, without a store call and without an exception; with an empty filename the
  filename check has answered before, with \<open>Empty filename\<close> and status 400.
\<close>

theorem missing_content_type_rejected:
  assumes "request_files req = Inr parts"
    and "map_of parts ''file'' = Some f"
    and "mimetype f = None \<or> mimetype f = Some []"
  shows "or_else (mimetype f) [] = []
         \<and> \<not> is_image_upload f
         \<and> upload nfkd cc now req s =
             (([(''ok'', JBool False),
                (''error'', JString (if filename f = Some [] then ''Empty filename''
                                     else ''Only image/* content types are allowed''))], 400),
              [], s)"
  using assms
  by (auto simp: upload_def is_image_upload_def or_else_def lower_def jsonify_status_def)

theorem missing_content_type_rejected_witness:
  "\<not> is_image_upload untyped_part
   \<and> upload nfkd_fragment (mem_client ''https://acct/c'') t_example
        (small_request [(''file'', untyped_part)]) [] =
       (([(''ok'', JBool False),
          (''error'', JString ''Only image/* content types are allowed'')], 400), [], [])"
proof -
  have a: "map_of [(''file'', untyped_part)] ''file'' = Some untyped_part"
    by simp
  have b: "mimetype untyped_part = None \<or> mimetype untyped_part = Some []"
    by (simp add: untyped_part_def)
  have c: "filename untyped_part \<noteq> Some []" by (simp add: untyped_part_def)
  show ?thesis
    using missing_content_type_rejected[OF request_files_small a b,
        of nfkd_fragment "mem_client ''https://acct/c''" t_example "[]"] c
    by simp
qed

text \<open>
  C3, as stated, fails in two places: a part of type \<open>text/plain\<close> in a body over the
  cap is answered with a 500, since reading \<open>request.files\<close> raises; and with an empty
  filename the error is that of the filename check.
\<close>

theorem non_image_rejected_counterexample:
  "upload nfkd_fragment (mem_client ''https://acct/c'') t_example
       (oversized_request [(''file'', text_part)]) [] =
     (([(''ok'', JBool False),
        (''error'', JString
           ''413 Request Entity Too Large: The data value transmitted exceeds the capacity limit.'')],
       500), [], [])
   \<and> \<not> prefix ''image/'' (lower (or_else (mimetype text_part) []))
   \<and> upload nfkd_fragment (mem_client ''https://acct/c'') t_example
        (small_request [(''file'', unnamed_text_part)]) [] =
     (([(''ok'', JBool False), (''error'', JString ''Empty filename'')], 400), [], [])"
  using text_part_invalid(3)
  by (simp add: upload_def request_files_oversized request_files_small jsonify_status_def
      request_entity_too_large_def unnamed_text_part_def)

text \<open>
  C3, amended: an upload whose body is parsed and whose file part declares a content type
  that does not start with \<open>image/\<close> (compared in lower case) is rejected with
  \<open>ok: false\<close> and status 400 whatever the payload of the part, without a store call;
  the error is \<open>Only image/* content types are allowed\<close> when the filename is not empty,
  and \<open>Empty filename\<close>, from the check before, when it is.
\<close>

theorem non_image_rejected:
  assumes "request_files req = Inr parts"
    and "map_of parts ''file'' = Some (f\<lparr>stream := payload\<rparr>)"
    and "\<not> prefix ''image/'' (lower (or_else (mimetype f) []))"
  shows "upload nfkd cc now req s =
           (([(''ok'', JBool False),
              (''error'', JString (if filename f = Some [] then ''Empty filename''
                                   else ''Only image/* content types are allowed''))], 400),
            [], s)"
  using assms
  by (simp add: upload_def jsonify_status_def is_image_upload_def startswith_prefix)

theorem non_image_rejected_witness:
  "upload nfkd_fragment (mem_client ''https://acct/c'') t_example
       (small_request [(''file'', text_part\<lparr>stream := [137, 80, 78, 71]\<rparr>)]) [] =
     (([(''ok'', JBool False),
        (''error'', JString ''Only image/* content types are allowed'')], 400), [], [])"
proof -
  have a: "map_of [(''file'', text_part\<lparr>stream := [137, 80, 78, 71]\<rparr>)] ''file''
             = Some (text_part\<lparr>stream := [137, 80, 78, 71]\<rparr>)"
    by simp
  show ?thesis
    using non_image_rejected[OF request_files_small a text_part_invalid(3),
        of nfkd_fragment "mem_client ''https://acct/c''" t_example "[]"] text_part_invalid(2)
    by simp
qed

text \<open>
  C6: a gallery call whose listing succeeds is answered with \<open>ok: true\<close>, status 200
  and one URL \<open><base-url>/<name>\<close> for each listed object, all of them, in descending
  lexicographic order; for the listing of \<open>20240101T000000-a.png\<close> and
  \<open>20240601T000000-b.png\<close> the URL of the second comes first.
\<close>

theorem gallery_success:
  assumes "list_blobs cc s = (names, None)"
  shows "\<exists>urls. gallery cc s =
             (([(''ok'', JBool True), (''gallery'', JArray (map JString urls))], 200),
              [List_blobs], s)
           \<and> mset urls = mset (map (\<lambda>name. url cc @ ''/'' @ name) names)
           \<and> sorted_wrt (\<lambda>x y. y \<le> x) urls
           \<and> (names = [''20240101T000000-a.png'', ''20240601T000000-b.png''] \<longrightarrow>
                urls = [url cc @ ''/20240601T000000-b.png'', url cc @ ''/20240101T000000-a.png''])"
proof (intro exI conjI)
  show "gallery cc s =
      (([(''ok'', JBool True),
         (''gallery'', JArray (map JString
            (sort_reverse (map (\<lambda>name. url cc @ ''/'' @ name) names))))], 200),
       [List_blobs], s)"
    using assms by (simp add: gallery_def jsonify_def)
  show "mset (sort_reverse (map (\<lambda>name. url cc @ ''/'' @ name) names))
      = mset (map (\<lambda>name. url cc @ ''/'' @ name) names)"
    by (rule mset_sort_reverse)
  show "sorted_wrt (\<lambda>x y. y \<le> x) (sort_reverse (map (\<lambda>name. url cc @ ''/'' @ name) names))"
    by (rule sorted_sort_reverse)
  show "names = [''20240101T000000-a.png'', ''20240601T000000-b.png''] \<longrightarrow>
      sort_reverse (map (\<lambda>name. url cc @ ''/'' @ name) names)
        = [url cc @ ''/20240601T000000-b.png'', url cc @ ''/20240101T000000-a.png'']"
    using sort_reverse_pair[OF example_order, of "url cc"] by simp
qed

theorem gallery_success_witness:
  "gallery (mem_client ''https://acct/c'')
      [(''20240101T000000-a.png'', [], None), (''20240601T000000-b.png'', [], None)] =
     (([(''ok'', JBool True),
        (''gallery'', JArray [JString ''https://acct/c/20240601T000000-b.png'',
                              JString ''https://acct/c/20240101T000000-a.png''])], 200),
      [List_blobs],
      [(''20240101T000000-a.png'', [], None), (''20240601T000000-b.png'', [], None)])"
proof -
  let ?s = "[(''20240101T000000-a.png'', [], None), (''20240601T000000-b.png'', [], None)]
              :: mem_store"
  have l: "list_blobs (mem_client ''https://acct/c'') ?s
             = ([''20240101T000000-a.png'', ''20240601T000000-b.png''], None)"
    by (simp add: mem_client_def)
  from gallery_success[OF l] obtain urls where
    g: "gallery (mem_client ''https://acct/c'') ?s =
          (([(''ok'', JBool True), (''gallery'', JArray (map JString urls))], 200),
           [List_blobs], ?s)"
    and u: "urls = [url (mem_client ''https://acct/c'') @ ''/20240601T000000-b.png'',
                    url (mem_client ''https://acct/c'') @ ''/20240101T000000-a.png'']"
    by blast
  show ?thesis unfolding g u by (simp add: mem_client_def)
qed

text \<open>
  C2: for an upload that passes validation, at an instant whose year has four digits, the
  key handed to the store is the UTC instant written \<open>YYYYMMDDTHHMMSS\<close> (fifteen
  characters, to the second), one hyphen, and the sanitized filename of the client.
\<close>

theorem storage_key_format:
  assumes "request_files req = Inr parts"
    and "map_of parts ''file'' = Some f"
    and "filename f = Some name" and "name \<noteq> []"
    and "prefix ''image/'' (lower (or_else (mimetype f) []))"
    and "datetime_ok now"
  shows "fst (snd (upload nfkd cc now req s)) =
           [Upload_blob (utc_timestamp_spec now @ ''-'' @ secure_filename nfkd name)
              (stream f) True (mimetype f)]
         \<and> timestamped_name nfkd now (filename f)
             = utc_timestamp_spec now @ ''-'' @ secure_filename nfkd name
         \<and> length (utc_timestamp_spec now) = 15"
proof -
  have k: "timestamped_name nfkd now (filename f)
             = utc_timestamp_spec now @ ''-'' @ secure_filename nfkd name"
    unfolding timestamped_name_def Let_def strftime_fixed[OF assms(6)]
    using assms(3,4) by (simp add: or_else_def)
  have "fst (snd (upload nfkd cc now req s)) =
          [Upload_blob (timestamped_name nfkd now (filename f)) (stream f) True (mimetype f)]"
    using assms(1-5)
    by (simp add: upload_def is_image_upload_def startswith_prefix Let_def
        split: prod.split option.split)
  with k show ?thesis by (simp add: length_utc_timestamp_spec)
qed

theorem storage_key_format_witness:
  "fst (snd (upload nfkd_fragment (mem_client ''https://acct/c'') t_example
        (small_request [(''file'', png_part)]) [])) =
     [Upload_blob ''20240601T120005-my_cat.PNG'' [137, 80] True (Some ''Image/PNG'')]
   \<and> utc_timestamp_spec t_example = ''20240601T120005''"
proof -
  have n: "filename png_part = Some ''../my cat.PNG''" "''../my cat.PNG'' \<noteq> []"
    by (simp_all add: png_part_def)
  have d: "datetime_ok t_example" by (simp add: datetime_ok_def t_example_def)
  have t: "utc_timestamp_spec t_example = ''20240601T120005''" by code_simp
  have sf: "secure_filename nfkd_fragment ''../my cat.PNG'' = ''my_cat.PNG''" by code_simp
  show ?thesis
    using storage_key_format[OF request_files_small png_part_valid(1) n png_part_valid(3) d,
        of nfkd_fragment "mem_client ''https://acct/c''" "[]"]
    unfolding t sf by (simp add: png_part_def)
qed

text \<open>
  C8: two valid uploads of the same client filename at instants of the same UTC second
  get the same storage key; both writes ask to overwrite, and when both succeed the two
  calls return the same URL.
\<close>

theorem same_second_same_key:
  assumes "request_files req1 = Inr parts1" and "map_of parts1 ''file'' = Some f1"
    and "request_files req2 = Inr parts2" and "map_of parts2 ''file'' = Some f2"
    and "filename f1 = filename f2" and "filename f1 \<noteq> Some []"
    and "prefix ''image/'' (lower (or_else (mimetype f1) []))"
    and "prefix ''image/'' (lower (or_else (mimetype f2) []))"
    and "same_second now1 now2"
    and "upload_blob cc (timestamped_name nfkd now1 (filename f1)) (stream f1) True
           (mimetype f1) s0 = (None, s1)"
    and "upload_blob cc (timestamped_name nfkd now2 (filename f2)) (stream f2) True
           (mimetype f2) s1 = (None, s2)"
  shows "timestamped_name nfkd now2 (filename f2) = timestamped_name nfkd now1 (filename f1)
         \<and> upload nfkd cc now1 req1 s0 =
             (([(''ok'', JBool True),
                (''url'', JString (url cc @ ''/'' @ timestamped_name nfkd now1 (filename f1)))],
               200),
              [Upload_blob (timestamped_name nfkd now1 (filename f1)) (stream f1) True
                 (mimetype f1)],
              s1)
         \<and> upload nfkd cc now2 req2 s1 =
             (([(''ok'', JBool True),
                (''url'', JString (url cc @ ''/'' @ timestamped_name nfkd now1 (filename f1)))],
               200),
              [Upload_blob (timestamped_name nfkd now1 (filename f1)) (stream f2) True
                 (mimetype f2)],
              s2)"
proof -
  have k: "timestamped_name nfkd now2 (filename f2) = timestamped_name nfkd now1 (filename f1)"
    using assms(5,9) by (simp add: timestamped_name_def same_second_def directive_def)
  have fn2: "filename f2 \<noteq> Some []" using assms(5,6) by simp
  have u1: "upload nfkd cc now1 req1 s0 =
             (([(''ok'', JBool True),
                (''url'', JString (url cc @ ''/'' @ timestamped_name nfkd now1 (filename f1)))],
               200),
              [Upload_blob (timestamped_name nfkd now1 (filename f1)) (stream f1) True
                 (mimetype f1)],
              s1)"
    using assms(1,2,6,7,10)
    by (simp add: upload_def jsonify_def is_image_upload_def startswith_prefix Let_def)
  have u2: "upload nfkd cc now2 req2 s1 =
             (([(''ok'', JBool True),
                (''url'', JString (url cc @ ''/'' @ timestamped_name nfkd now2 (filename f2)))],
               200),
              [Upload_blob (timestamped_name nfkd now2 (filename f2)) (stream f2) True
                 (mimetype f2)],
              s2)"
    using assms(3,4,8,11) fn2
    by (simp add: upload_def jsonify_def is_image_upload_def startswith_prefix Let_def)
  show ?thesis by (intro conjI k u1 u2[unfolded k])
qed

theorem same_second_same_key_witness:
  "upload nfkd_fragment (mem_client ''https://acct/c'') t_example
       (small_request [(''file'', png_part)]) [] =
     (([(''ok'', JBool True),
        (''url'', JString ''https://acct/c/20240601T120005-my_cat.PNG'')], 200),
      [Upload_blob ''20240601T120005-my_cat.PNG'' [137, 80] True (Some ''Image/PNG'')],
      [(''20240601T120005-my_cat.PNG'', [137, 80], Some ''Image/PNG'')])
   \<and> upload nfkd_fragment (mem_client ''https://acct/c'') t_later
        (small_request [(''file'', png_part2)])
        [(''20240601T120005-my_cat.PNG'', [137, 80], Some ''Image/PNG'')] =
     (([(''ok'', JBool True),
        (''url'', JString ''https://acct/c/20240601T120005-my_cat.PNG'')], 200),
      [Upload_blob ''20240601T120005-my_cat.PNG'' [71] True (Some ''image/png'')],
      [(''20240601T120005-my_cat.PNG'', [71], Some ''image/png'')])"
proof -
  let ?cc = "mem_client ''https://acct/c''"
  have fn: "filename png_part = filename png_part2"
    by (simp add: png_part_def png_part2_def)
  have ss: "same_second t_example t_later"
    by (simp add: same_second_def t_example_def t_later_def)
  have w1: "upload_blob ?cc (timestamped_name nfkd_fragment t_example (filename png_part))
          (stream png_part) True (mimetype png_part) []
        = (None, [(''20240601T120005-my_cat.PNG'', [137, 80], Some ''Image/PNG'')])"
    unfolding png_part_key by (simp add: mem_client_def mem_upload_blob_def png_part_def)
  have w2: "upload_blob ?cc (timestamped_name nfkd_fragment t_later (filename png_part2))
          (stream png_part2) True (mimetype png_part2)
          [(''20240601T120005-my_cat.PNG'', [137, 80], Some ''Image/PNG'')]
        = (None, [(''20240601T120005-my_cat.PNG'', [71], Some ''image/png'')])"
    unfolding png_part2_key by (simp add: mem_client_def mem_upload_blob_def png_part2_def)
  show ?thesis
    using same_second_same_key[OF request_files_small png_part_valid(1) request_files_small
        png_part2_valid(1) fn png_part_valid(2,3) png_part2_valid(2) ss w1 w2]
    unfolding png_part_key by (simp add: mem_client_def png_part_def png_part2_def)
qed




end
